theory Spec2Isabelle
  imports Main "HOL-Library.Word" "HOL-Library.Signed_Division"
begin

section \<open>Machine integers and undefined behaviour\<close>

text \<open>
  The target is a 32-bit ARM board: \<open>int\<close> and \<open>uint32_t\<close> are 32 bits wide. Variables
  of type \<open>int\<close> are stored as \<open>32 word\<close> and read as two's complement with \<open>sint\<close>;
  \<open>uint32_t\<close> values are \<open>32 word\<close> read with \<open>uint\<close>, their arithmetic wraps.
  Signed arithmetic of C is undefined on overflow and on division by zero: the
  operations below compute on mathematical integers and return a fault there.
\<close>

datatype fault = DivisionByZero | SignedOverflow | AtoiOutOfRange

definition INT_MIN :: int where
  "INT_MIN = - (2 ^ 31)"

definition INT_MAX :: int where
  "INT_MAX = 2 ^ 31 - 1"

definition in_int_range :: "int \<Rightarrow> bool" where
  "in_int_range n \<longleftrightarrow> INT_MIN \<le> n \<and> n \<le> INT_MAX"

text \<open>\<open>a / b\<close> on \<open>int\<close>: truncation towards zero (\<open>sdiv\<close>).\<close>

definition c_div :: "int \<Rightarrow> int \<Rightarrow> fault + int" where
  "c_div a b =
     (if b = 0 then Inl DivisionByZero
      else if in_int_range (a sdiv b) then Inr (a sdiv b)
      else Inl SignedOverflow)"

definition c_mul :: "int \<Rightarrow> int \<Rightarrow> fault + int" where
  "c_mul a b = (if in_int_range (a * b) then Inr (a * b) else Inl SignedOverflow)"

definition c_sub :: "int \<Rightarrow> int \<Rightarrow> fault + int" where
  "c_sub a b = (if in_int_range (a - b) then Inr (a - b) else Inl SignedOverflow)"

section \<open>main.c: the generator state\<close>

definition ASTABLE :: "32 word" where
  "ASTABLE = 0"

definition MONOSTABLE :: "32 word" where
  "MONOSTABLE = 1"

definition DEBOUNCE_DELAY :: "32 word" where
  "DEBOUNCE_DELAY = 200"

definition MODE_PIN :: "32 word" where
  "MODE_PIN = 14"

definition STEP_PIN :: "32 word" where
  "STEP_PIN = 15"

definition PULSE_PIN :: "32 word" where
  "PULSE_PIN = 16"

definition CLOCK_PIN :: "32 word" where
  "CLOCK_PIN = 28"

text \<open>
  The volatile globals of main.c. \<open>frequency\<close>, \<open>duty_cycle\<close>, \<open>mode\<close> and \<open>pulse\<close>
  are \<open>int\<close>; \<open>last_interrupt_ms\<close> is \<open>uint32_t\<close>. \<open>pulse\<close> holds a C truth value:
  \<open>false\<close> is 0, \<open>true\<close> is 1, and \<open>!pulse\<close> tests for 0.
\<close>

record generator =
  frequency :: "32 word"
  duty_cycle :: "32 word"
  mode :: "32 word"
  pulse :: "32 word"
  last_interrupt_ms :: "32 word"

text \<open>The initial values of the globals.\<close>

definition initial_generator :: generator where
  "initial_generator =
     \<lparr>frequency = 1, duty_cycle = 50, mode = ASTABLE, pulse = 1, last_interrupt_ms = 0\<rparr>"

subsection \<open>handle_button_interrupt\<close>

text \<open>
  The handler reads the millisecond clock once; the value read is the argument \<open>now\<close>.
  The subtraction \<open>now - last_interrupt_ms\<close> and the comparison are unsigned. The
  \<open>events\<close> argument of the source is never read.
\<close>

definition debounced :: "32 word \<Rightarrow> generator \<Rightarrow> bool" where
  "debounced now s \<longleftrightarrow> now - last_interrupt_ms s < DEBOUNCE_DELAY"

definition handle_button_interrupt :: "32 word \<Rightarrow> 32 word \<Rightarrow> generator \<Rightarrow> generator" where
  "handle_button_interrupt gpio now s =
     (if debounced now s then s
      else
        (let s1 =
           (if gpio = MODE_PIN then
              (let m = (if mode s = ASTABLE then MONOSTABLE else ASTABLE)
               in s\<lparr>mode := m, pulse := (if m = MONOSTABLE then 0 else 1)\<rparr>)
            else if gpio = STEP_PIN \<and> mode s = MONOSTABLE then s\<lparr>pulse := 1\<rparr>
            else s)
         in s1\<lparr>last_interrupt_ms := now\<rparr>))"

subsection \<open>The pulse loop of main\<close>

text \<open>
  What the loop does to the outside: pin writes, blocking sleeps (\<open>sleep_ms\<close> takes a
  \<open>uint32_t\<close>) and the debug line, which prints mode, frequency, duty cycle, high time
  and low time.
\<close>

datatype effect =
    GpioPut "32 word" bool
  | SleepMs "32 word"
  | DebugPrintf "32 word" "32 word" "32 word" int int

text \<open>
  \<open>sleep_in_ms = 1000 / frequency\<close>, \<open>high_time = sleep_in_ms * duty_cycle / 100\<close>,
  \<open>low_time = sleep_in_ms - high_time\<close>, all on \<open>int\<close>.
\<close>

definition pulse_times :: "generator \<Rightarrow> fault + (int \<times> int \<times> int)" where
  "pulse_times s =
     (case c_div 1000 (sint (frequency s)) of
        Inl e \<Rightarrow> Inl e
      | Inr sleep_in_ms \<Rightarrow>
          (case c_mul sleep_in_ms (sint (duty_cycle s)) of
             Inl e \<Rightarrow> Inl e
           | Inr product \<Rightarrow>
               (case c_div product 100 of
                  Inl e \<Rightarrow> Inl e
                | Inr high_time \<Rightarrow>
                    (case c_sub sleep_in_ms high_time of
                       Inl e \<Rightarrow> Inl e
                     | Inr low_time \<Rightarrow> Inr (sleep_in_ms, high_time, low_time)))))"

definition debug_line :: "bool \<Rightarrow> generator \<Rightarrow> int \<Rightarrow> int \<Rightarrow> effect list" where
  "debug_line clock_debug s high_time low_time =
     (if clock_debug
      then [DebugPrintf (mode s) (frequency s) (duty_cycle s) high_time low_time]
      else [])"

definition high_pulse :: "int \<Rightarrow> effect list" where
  "high_pulse high_time =
     [GpioPut CLOCK_PIN True, GpioPut PULSE_PIN True, SleepMs (word_of_int high_time),
      GpioPut PULSE_PIN False, GpioPut CLOCK_PIN False]"

text \<open>
  One pass through the body of \<open>while (true)\<close>, with no interrupt taken during it.
  \<open>clock_debug\<close> is the build-time macro \<open>CLOCK_DEBUG\<close>, which the build defines
  outside the sources. With \<open>pulse\<close> cleared the pass is the \<open>continue\<close>.
\<close>

definition loop_iteration :: "bool \<Rightarrow> generator \<Rightarrow> fault + (generator \<times> effect list)" where
  "loop_iteration clock_debug s =
     (if pulse s = 0 then Inr (s, [])
      else
        (case pulse_times s of
           Inl e \<Rightarrow> Inl e
         | Inr (sleep_in_ms, high_time, low_time) \<Rightarrow>
             (if mode s = ASTABLE
              then Inr (s, debug_line clock_debug s high_time low_time
                          @ high_pulse high_time @ [SleepMs (word_of_int low_time)])
              else Inr (s\<lparr>pulse := 0\<rparr>, debug_line clock_debug s high_time low_time
                          @ high_pulse high_time))))"

text \<open>The first \<open>n\<close> passes of the loop, which never exits by itself.\<close>

fun main_loop :: "bool \<Rightarrow> nat \<Rightarrow> generator \<Rightarrow> fault + (generator \<times> effect list)" where
  "main_loop clock_debug 0 s = Inr (s, [])"
| "main_loop clock_debug (Suc n) s =
     (case loop_iteration clock_debug s of
        Inl e \<Rightarrow> Inl e
      | Inr (s1, out1) \<Rightarrow>
          (case main_loop clock_debug n s1 of
             Inl e \<Rightarrow> Inl e
           | Inr (s2, out2) \<Rightarrow> Inr (s2, out1 @ out2)))"

subsection \<open>The frequency source of main.c\<close>


definition adc_frequency :: "16 word list \<Rightarrow> int" where
  "adc_frequency samples =
     (let sum = sum_list (map uint samples);
          avg = sum sdiv 64
      in (avg * 999) sdiv 4095 + 1)"

subsection \<open>main.c as a whole\<close>





section \<open>cmd.c: strings\<close>

text \<open>
  A \<open>char *\<close> is modelled by the bytes stored from the pointer on; a C string stops
  at the first NUL byte. The storage is taken to be followed by a NUL, as the
  console's buffer is (its last byte is never written).
\<close>

definition NUL :: char where
  "NUL = CHR 0x00"

definition TAB :: char where
  "TAB = CHR 0x09"

definition BS :: char where
  "BS = CHR 0x08"

definition ESC :: char where
  "ESC = CHR 0x1B"

definition c_str :: "char list \<Rightarrow> string" where
  "c_str mem = takeWhile (\<lambda>c. c \<noteq> NUL) mem"

text \<open>\<open>strcmp(a, lit) == 0\<close> and \<open>strncmp(a, lit, n) == 0\<close> for a literal \<open>lit\<close>.\<close>

definition strcmp_eq :: "char list \<Rightarrow> string \<Rightarrow> bool" where
  "strcmp_eq mem lit \<longleftrightarrow> c_str mem = lit"

definition strncmp_eq :: "char list \<Rightarrow> string \<Rightarrow> nat \<Rightarrow> bool" where
  "strncmp_eq mem lit n \<longleftrightarrow> take n (c_str mem) = take n lit"

definition isspace :: "char \<Rightarrow> bool" where
  "isspace c \<longleftrightarrow>
     c = CHR '' '' \<or> c = CHR 0x09 \<or> c = CHR 0x0A \<or> c = CHR 0x0B \<or> c = CHR 0x0C \<or> c = CHR 0x0D"

definition isdigit :: "char \<Rightarrow> bool" where
  "isdigit c \<longleftrightarrow> (48::nat) \<le> of_char c \<and> (of_char c :: nat) \<le> 57"

fun digits_value :: "nat \<Rightarrow> string \<Rightarrow> nat" where
  "digits_value acc [] = acc"
| "digits_value acc (c # cs) =
     (if isdigit c then digits_value (10 * acc + (of_char c - 48)) cs else acc)"

text \<open>
  \<open>atoi\<close>: leading white space, an optional sign, then decimal digits up to the first
  other character. The C standard leaves the result undefined when the value does not
  fit an \<open>int\<close>.
\<close>

definition atoi :: "string \<Rightarrow> fault + int" where
  "atoi str =
     (let t = dropWhile isspace str;
          negative = (t \<noteq> [] \<and> hd t = CHR ''-'');
          signed = (t \<noteq> [] \<and> (hd t = CHR ''-'' \<or> hd t = CHR ''+''));
          v = int (digits_value 0 (if signed then tl t else t));
          r = (if negative then - v else v)
      in if in_int_range r then Inr r else Inl AtoiOutOfRange)"

section \<open>cmd.c: the clock interface\<close>

text \<open>
  cmd.c drives the generator through the functions and constants declared in
  clock.h. Their definitions are not part of the sources at hand, so the interpreter
  takes them as a parameter: a record of the constants, the getters (which only read
  the clock's state \<open>'c\<close>) and the mutators. The result types of the getters are the
  types of the variables that \<open>cmd_info\<close> stores them in.
\<close>

record 'c clock_api =
  CLOCK_TIMER_PWM :: "8 word"
  CLOCK_TIMER_RPT :: "8 word"
  CLOCK_MONOSTABLE :: "8 word"
  clock_get_sys_freq_hz :: "'c \<Rightarrow> 32 word"
  clock_get_freq_hz :: "'c \<Rightarrow> 32 word"
  clock_get_pwm_div :: "'c \<Rightarrow> 16 word"
  clock_get_pwm_wrap :: "'c \<Rightarrow> 16 word"
  clock_get_duty_cycle :: "'c \<Rightarrow> 16 word"
  clock_get_timer_type :: "'c \<Rightarrow> 8 word"
  clock_get_mode :: "'c \<Rightarrow> 8 word"
  clock_pulse_start :: "'c \<Rightarrow> 'c"
  clock_pulse_stop :: "'c \<Rightarrow> 'c"
  clock_step :: "bool \<Rightarrow> 'c \<Rightarrow> 'c"
  clock_step_pulse :: "'c \<Rightarrow> 'c"
  clock_set_freq_hz :: "32 word \<Rightarrow> 'c \<Rightarrow> 'c"
  clock_set_duty_cycle :: "16 word \<Rightarrow> 'c \<Rightarrow> 'c"
  clock_reset :: "'c \<Rightarrow> 'c"

section \<open>cmd.c: console output and commands\<close>

text \<open>
  What the console code does to the outside: \<open>printf\<close> with its format string and
  arguments, the timer and heap calls of \<open>cmd_stop\<close> and \<open>cmd_run\<close>, the reboot, and
  the call through the function pointer \<open>cmd_data->cmd_execute\<close>, which carries the
  bytes of the line buffer at the time of the call.
\<close>

datatype printf_arg = ArgU32 "32 word" | ArgU16 "16 word" | ArgStr string

datatype console_effect =
    Printf string "printf_arg list"
  | CancelRepeatingTimer
  | FreeCmdData
  | MallocCmdData
  | FlushInput
  | AddRepeatingTimer nat
  | ResetUsbBoot
  | Execute "char list"

definition cmd_info :: "'c clock_api \<Rightarrow> 'c \<Rightarrow> console_effect list" where
  "cmd_info api s =
     (let sys_clk = clock_get_sys_freq_hz api s;
          out_clk = clock_get_freq_hz api s;
          pwm_div = clock_get_pwm_div api s;
          pwm_wrap = clock_get_pwm_wrap api s;
          duty_cycle = clock_get_duty_cycle api s;
          timer_type = clock_get_timer_type api s;
          mode = clock_get_mode api s;
          timer_type_str = (if timer_type = CLOCK_TIMER_PWM api then ''PWM'' else ''RPT'');
          mode_str = (if mode = CLOCK_MONOSTABLE api then ''Monostable'' else ''Astable'')
      in [Printf (''\<newline>Sys Clock:'' @ [TAB, TAB] @ ''%luHz\<newline>Out Clock:'' @ [TAB, TAB]
                  @ ''%luHz\<newline>Mode:'' @ [TAB, TAB, TAB] @ ''%s\<newline>Timer:'' @ [TAB, TAB, TAB]
                  @ ''%s\<newline>'')
            [ArgU32 sys_clk, ArgU32 out_clk, ArgStr mode_str, ArgStr timer_type_str]]
         @ (if timer_type \<noteq> 0
            then [Printf (''Divider:'' @ [TAB, TAB] @ ''%d\<newline>Wrap:'' @ [TAB, TAB, TAB]
                          @ ''%d\<newline>'')
                    [ArgU16 pwm_div, ArgU16 pwm_wrap]]
            else [])
         @ [Printf (''Duty Cycle:'' @ [TAB, TAB] @ ''%d%%\<newline>'') [ArgU16 duty_cycle],
            Printf ''\<newline>'' []])"

definition cmd_boot_message :: "'c clock_api \<Rightarrow> 'c \<Rightarrow> console_effect list" where
  "cmd_boot_message api s =
     [Printf ([ESC] @ ''[2J'' @ [ESC] @ ''[1;1H'') [],
      Printf ([ESC] @ ''[1mPico Clock/Timer Emulator'' @ [ESC] @ ''[0m\<newline>'') []]
     @ cmd_info api s
     @ [Printf ''Type '?' for help\<newline>\<newline>'' []]"

definition cmd_help :: "console_effect list" where
  "cmd_help =
     [Printf (''\<newline>?'' @ [TAB, TAB] @ ''shows this help\<newline>''
              @ ''start'' @ [TAB, TAB] @ ''starts the clock timer\<newline>''
              @ ''stop'' @ [TAB, TAB] @ ''stops the clock timer\<newline>''
              @ ''step'' @ [TAB, TAB] @ ''steps the clock timer\<newline>''
              @ ''freq <hz>'' @ [TAB] @ ''sets the clock frequency\<newline>''
              @ ''duty <percent>'' @ [TAB] @ ''sets the clock duty cycle\<newline>''
              @ ''reset'' @ [TAB, TAB] @ ''resets the clock timer\<newline>''
              @ ''reboot'' @ [TAB, TAB] @ ''reboots the pico to BOOTSEL mode\<newline>''
              @ ''clear'' @ [TAB, TAB] @ ''clears the screen\<newline>''
              @ ''\<newline>'') []]"

definition cmd_stop :: "console_effect list" where
  "cmd_stop = [CancelRepeatingTimer, FreeCmdData]"

definition cmd_run :: "console_effect list" where
  "cmd_run = [Printf ''>>> '' [], MallocCmdData, FlushInput, AddRepeatingTimer 50]"

definition step_message :: string where
  "step_message =
     ''* Monostable mode press `enter` to step and type `exit` and hit enter to go back to Astable mode\<newline>''"

text \<open>
  \<open>cmd_execute\<close>: the chain of comparisons in the order of the source. Every branch
  runs between \<open>cmd_stop\<close> and \<open>cmd_run\<close>, except \<open>reboot\<close>, whose \<open>reset_usb_boot\<close>
  does not return. \<open>hz\<close> is a \<open>u_int32_t\<close> and \<open>duty_cycle\<close> a \<open>u_int16_t\<close>: the
  \<open>int\<close> that \<open>atoi\<close> returns is converted on assignment, and the comparisons with the
  limits are unsigned.
\<close>

definition cmd_execute ::
  "'c clock_api \<Rightarrow> char list \<Rightarrow> 'c \<Rightarrow> fault + ('c \<times> console_effect list)" where
  "cmd_execute api cmd s =
     (if strcmp_eq cmd ''?'' then
        Inr (s, cmd_stop @ cmd_help @ cmd_run)
      else if strcmp_eq cmd ''start'' then
        Inr (clock_pulse_start api s,
             cmd_stop @ [Printf ''* Clock started\<newline>'' []] @ cmd_run)
      else if strcmp_eq cmd ''stop'' then
        Inr (clock_pulse_stop api s,
             cmd_stop @ [Printf ''* Clock stopped\<newline>'' []] @ cmd_run)
      else if strcmp_eq cmd ''step'' then
        (let s1 = clock_step api True s
         in Inr (s1, cmd_stop @ [Printf step_message []] @ cmd_info api s1 @ cmd_run))
      else if strncmp_eq cmd ''freq'' 4 then
        (case atoi (c_str (drop 5 cmd)) of
           Inl e \<Rightarrow> Inl e
         | Inr n \<Rightarrow>
             (let hz = (word_of_int n :: 32 word)
              in if 125000000 < hz then
                   Inr (s, cmd_stop
                           @ [Printf ''Frequency cannot be greater than 125000000\<newline>'' []]
                           @ cmd_run)
                 else
                   (let s1 = clock_set_freq_hz api hz s
                    in Inr (s1, cmd_stop @ cmd_info api s1 @ cmd_run))))
      else if strncmp_eq cmd ''duty'' 4 then
        (case atoi (c_str (drop 5 cmd)) of
           Inl e \<Rightarrow> Inl e
         | Inr n \<Rightarrow>
             (let duty_cycle = (word_of_int n :: 16 word)
              in if clock_get_timer_type api s = CLOCK_TIMER_RPT api then
                   Inr (s, cmd_stop
                           @ [Printf ''Duty cycle can only be set in PWM mode\<newline>'' []]
                           @ cmd_run)
                 else if 100 < duty_cycle then
                   Inr (s, cmd_stop
                           @ [Printf ''Duty cycle cannot be greater than 100\<newline>'' []]
                           @ cmd_run)
                 else
                   (let s1 = clock_set_duty_cycle api duty_cycle s
                    in Inr (s1, cmd_stop @ cmd_info api s1 @ cmd_run))))
      else if strcmp_eq cmd ''reset'' then
        (let s1 = clock_reset api s
         in Inr (s1, cmd_stop @ cmd_boot_message api s1 @ cmd_run))
      else if strcmp_eq cmd ''reboot'' then
        Inr (s, cmd_stop @ [Printf ''* Rebooting to BOOTSEL mode\<newline>'' [], ResetUsbBoot])
      else if strcmp_eq cmd ''clear'' then
        Inr (s, cmd_stop @ cmd_boot_message api s @ cmd_run)
      else if strcmp_eq cmd ''exit'' \<and> clock_get_mode api s = CLOCK_MONOSTABLE api then
        (let s1 = clock_step api False s
         in Inr (s1, cmd_stop @ cmd_info api s1 @ cmd_run))
      else if clock_get_mode api s = CLOCK_MONOSTABLE api then
        Inr (clock_step_pulse api s, cmd_stop @ [Printf ''...\<newline>'' []] @ cmd_run)
      else
        Inr (s, cmd_stop @ [Printf ''Unknown command\<newline>'' []] @ cmd_run))"

section \<open>cmd.c: the line buffer\<close>

text \<open>
  The static variables of \<open>cmd_timer_callback\<close>: the 256-byte \<open>cmd_buffer\<close> and
  \<open>index\<close>. \<open>index\<close> is an \<open>unsigned int\<close>; it is decremented only when it is not 0
  and incremented only below 255, so it never wraps and is kept as a natural number.
\<close>

record console =
  cmd_buffer :: "char list"
  index :: nat

definition initial_console :: console where
  "initial_console = \<lparr>cmd_buffer = replicate 256 NUL, index = 0\<rparr>"

definition PICO_ERROR_TIMEOUT :: int where
  "PICO_ERROR_TIMEOUT = - 1"

text \<open>
  One timer tick. \<open>ch\<close> is what \<open>getchar_timeout_us(0)\<close> returned: a byte value, or
  \<open>PICO_ERROR_TIMEOUT\<close>. Storing \<open>ch\<close> into the buffer keeps its low eight bits.
\<close>

definition cmd_timer_callback :: "int \<Rightarrow> console \<Rightarrow> console \<times> console_effect list" where
  "cmd_timer_callback ch c =
     (if ch = PICO_ERROR_TIMEOUT then (c, [])
      else if ch = 0x08 \<or> ch = 0x7F then
        (if index c = 0 then (c, [Printf '' '' []])
         else (c\<lparr>cmd_buffer := (cmd_buffer c)[index c - 1 := NUL], index := index c - 1\<rparr>,
               [Printf ('' '' @ [BS] @ '' '' @ [BS]) []]))
      else if ch = 0x0A \<or> ch = 0x0D then
        (c\<lparr>cmd_buffer := replicate 256 NUL, index := 0\<rparr>, [Execute (cmd_buffer c)])
      else if index c < 256 - 1 then
        (c\<lparr>cmd_buffer := (cmd_buffer c)[index c := char_of ch], index := index c + 1\<rparr>, [])
      else (c, []))"

text \<open>The ticks for a sequence of values read, one after the other.\<close>

fun console_ticks :: "int list \<Rightarrow> console \<Rightarrow> console \<times> console_effect list" where
  "console_ticks [] c = (c, [])"
| "console_ticks (ch # chs) c =
     (let (c1, out1) = cmd_timer_callback ch c;
          (c2, out2) = console_ticks chs c1
      in (c2, out1 @ out2))"

definition is_execute :: "console_effect \<Rightarrow> bool" where
  "is_execute e = (case e of Execute cmd \<Rightarrow> True | _ \<Rightarrow> False)"

text \<open>
  The state of the line buffer that the ticks maintain: 256 bytes, \<open>index\<close> at most
  255, and NUL from \<open>index\<close> on, so that the buffer always holds a C string of at most
  \<open>index\<close> characters.
\<close>

definition console_ok :: "console \<Rightarrow> bool" where
  "console_ok c \<longleftrightarrow>
     length (cmd_buffer c) = 256 \<and> index c \<le> 255
     \<and> drop (index c) (cmd_buffer c) = replicate (256 - index c) NUL"

section \<open>The clock, from the specification\<close>

text \<open>
  Modelled from the spec: the state of the clock, whose declaration behind clock.h is
  missing from the sources. It holds the generator state of the specification (mode,
  pulse enable, frequency, duty cycle, output kind) and, as reported values, the
  system clock and the PWM divider and wrap. The fields have the types in which
  \<open>cmd_info\<close> stores what the getters return.
\<close>

record clock =
  clk_mode :: "8 word"
  clk_pulse :: bool
  clk_freq_hz :: "32 word"
  clk_duty_cycle :: "16 word"
  timer_type :: "8 word"
  sys_freq_hz :: "32 word"
  pwm_div :: "16 word"
  pwm_wrap :: "16 word"

text \<open>
  Modelled from the spec: the constants, getters and mutators of clock.h, all missing
  from the sources. The getters read the fields. Start and a step request set pulse
  enable, stop and leaving step mode clear it. The frequency of the data model lies
  between 1 and 125000000 and no setter accepts 0: the frequency setter commits a
  value in that range and leaves the state as it is for any other. The duty-cycle
  setter commits the value that the interpreter passes on. Reset restores the
  defaults. Mode Monostable is 1; the timer kinds are 0 for the repeating timer and 1
  for PWM, the only values under which the two tests of \<open>cmd_info\<close> on the kind agree.
\<close>

definition spec_clock :: "clock clock_api" where
  "spec_clock =
     \<lparr>CLOCK_TIMER_PWM = 1,
      CLOCK_TIMER_RPT = 0,
      CLOCK_MONOSTABLE = 1,
      clock_get_sys_freq_hz = sys_freq_hz,
      clock_get_freq_hz = clk_freq_hz,
      clock_get_pwm_div = pwm_div,
      clock_get_pwm_wrap = pwm_wrap,
      clock_get_duty_cycle = clk_duty_cycle,
      clock_get_timer_type = timer_type,
      clock_get_mode = clk_mode,
      clock_pulse_start = (\<lambda>c. c\<lparr>clk_pulse := True\<rparr>),
      clock_pulse_stop = (\<lambda>c. c\<lparr>clk_pulse := False\<rparr>),
      clock_step = (\<lambda>b c. c\<lparr>clk_pulse := b\<rparr>),
      clock_step_pulse = (\<lambda>c. c\<lparr>clk_pulse := True\<rparr>),
      clock_set_freq_hz =
        (\<lambda>hz c. if hz = 0 \<or> 125000000 < hz then c else c\<lparr>clk_freq_hz := hz\<rparr>),
      clock_set_duty_cycle = (\<lambda>pct c. c\<lparr>clk_duty_cycle := pct\<rparr>),
      clock_reset =
        (\<lambda>c. c\<lparr>clk_mode := 0, clk_pulse := True, clk_freq_hz := 1, clk_duty_cycle := 50\<rparr>)\<rparr>"

text \<open>
  Modelled from the spec: the clock at start-up, with the defaults of the generator
  (Astable, pulse enabled, frequency 1, duty cycle 50) and the given timer kind. The
  start-up code of the clock is missing; the reported values are sample values.
\<close>

definition initial_clock :: "8 word \<Rightarrow> clock" where
  "initial_clock kind =
     \<lparr>clk_mode = 0, clk_pulse = True, clk_freq_hz = 1, clk_duty_cycle = 50,
      timer_type = kind, sys_freq_hz = 125000000, pwm_div = 0, pwm_wrap = 0\<rparr>"

section \<open>The specification's wording\<close>

text \<open>
  The timing formulas as the specification states them, on the values read from the
  generator: the period is \<open>1000 / frequencyHz\<close> by truncating division, the high time
  is \<open>periodMs * dutyCyclePercent / 100\<close>, the low time is the rest of the period.
\<close>

definition spec_period_ms :: "generator \<Rightarrow> int" where
  "spec_period_ms s = 1000 sdiv sint (frequency s)"

definition spec_high_ms :: "generator \<Rightarrow> int" where
  "spec_high_ms s = (spec_period_ms s * sint (duty_cycle s)) sdiv 100"

definition spec_low_ms :: "generator \<Rightarrow> int" where
  "spec_low_ms s = spec_period_ms s - spec_high_ms s"

text \<open>
  A value read from the console that the line editor treats specially: nothing
  read, backspace or delete, newline or carriage return.
\<close>

definition is_control :: "int \<Rightarrow> bool" where
  "is_control ch \<longleftrightarrow>
     ch = PICO_ERROR_TIMEOUT \<or> ch = 0x08 \<or> ch = 0x7F \<or> ch = 0x0A \<or> ch = 0x0D"

text \<open>A line that matches none of the command tokens of the interpreter's table.\<close>

definition matches_no_command :: "char list \<Rightarrow> bool" where
  "matches_no_command cmd \<longleftrightarrow>
     \<not> strcmp_eq cmd ''?'' \<and> \<not> strcmp_eq cmd ''start'' \<and> \<not> strcmp_eq cmd ''stop''
     \<and> \<not> strcmp_eq cmd ''step'' \<and> \<not> strncmp_eq cmd ''freq'' 4
     \<and> \<not> strncmp_eq cmd ''duty'' 4 \<and> \<not> strcmp_eq cmd ''reset''
     \<and> \<not> strcmp_eq cmd ''reboot'' \<and> \<not> strcmp_eq cmd ''clear''
     \<and> \<not> strcmp_eq cmd ''exit''"

text \<open>
  The line buffer after the characters \<open>p\<close> have been typed on an empty line, and the
  byte value of the letter \<open>a\<close>.
\<close>

definition line_console :: "string \<Rightarrow> console" where
  "line_console p = \<lparr>cmd_buffer = p @ replicate (256 - length p) NUL, index = length p\<rparr>"

definition letter_a :: int where
  "letter_a = 0x61"

section \<open>Arithmetic of the pulse loop\<close>

lemma sdiv_nonneg_pos: "0 \<le> a \<Longrightarrow> 0 < b \<Longrightarrow> a sdiv b = a div (b::int)"
  by (cases "a = 0") (simp_all add: signed_divide_int_def)

lemma period_bounds:
  assumes "1 \<le> (f::int)"
  shows "0 \<le> 1000 div f" and "1000 div f \<le> 1000"
proof -
  show "0 \<le> 1000 div f" using assms by (simp add: pos_imp_zdiv_nonneg_iff)
  have "1000 div f \<le> 1000 div 1" using assms by (intro zdiv_mono2) simp_all
  then show "1000 div f \<le> 1000" by simp
qed

lemma high_bounds:
  assumes "0 \<le> (p::int)" and "0 \<le> d" and "d \<le> 100"
  shows "0 \<le> p * d div 100" and "p * d div 100 \<le> p"
proof -
  show "0 \<le> p * d div 100" using assms by (simp add: pos_imp_zdiv_nonneg_iff)
  have "p * d \<le> p * 100" using assms by (intro mult_left_mono) simp_all
  then have "p * d div 100 \<le> p * 100 div 100" by (intro zdiv_mono1) simp_all
  then show "p * d div 100 \<le> p" by simp
qed

text \<open>
  With the frequency at least 1 and the duty cycle between 0 and 100 no step of the
  computation overflows or divides by zero, and truncation coincides with \<open>div\<close>.
\<close>

lemma pulse_times_in_range:
  assumes f: "1 \<le> sint (frequency s)"
    and d0: "0 \<le> sint (duty_cycle s)" and d1: "sint (duty_cycle s) \<le> 100"
  shows "pulse_times s =
           Inr (1000 div sint (frequency s),
                1000 div sint (frequency s) * sint (duty_cycle s) div 100,
                1000 div sint (frequency s)
                  - 1000 div sint (frequency s) * sint (duty_cycle s) div 100)"
proof -
  define p where "p = 1000 div sint (frequency s)"
  define h where "h = p * sint (duty_cycle s) div 100"
  have p: "0 \<le> p" "p \<le> 1000" using period_bounds [OF f] by (simp_all add: p_def)
  have h: "0 \<le> h" "h \<le> p" using high_bounds [OF p(1) d0 d1] by (simp_all add: h_def)
  have pd0: "0 \<le> p * sint (duty_cycle s)" using p d0 by simp
  have "p * sint (duty_cycle s) \<le> 1000 * 100"
    using p d0 d1 by (intro mult_mono) simp_all
  then have pd1: "p * sint (duty_cycle s) \<le> 100000" by simp
  have 1: "c_div 1000 (sint (frequency s)) = Inr p"
    using f p
    by (simp add: c_div_def sdiv_nonneg_pos p_def in_int_range_def INT_MIN_def INT_MAX_def)
  have 2: "c_mul p (sint (duty_cycle s)) = Inr (p * sint (duty_cycle s))"
    using pd0 pd1 by (simp add: c_mul_def in_int_range_def INT_MIN_def INT_MAX_def)
  have 3: "c_div (p * sint (duty_cycle s)) 100 = Inr h"
    using pd0 h p
    by (simp add: c_div_def sdiv_nonneg_pos h_def [symmetric] in_int_range_def
        INT_MIN_def INT_MAX_def)
  have 4: "c_sub p h = Inr (p - h)"
    using h p by (simp add: c_sub_def in_int_range_def INT_MIN_def INT_MAX_def)
  show ?thesis
    unfolding pulse_times_def 1 p_def [symmetric] using 2 3 4 by (simp add: h_def)
qed

lemma spec_times_in_range:
  assumes f: "1 \<le> sint (frequency s)"
    and d0: "0 \<le> sint (duty_cycle s)" and d1: "sint (duty_cycle s) \<le> 100"
  shows "spec_period_ms s = 1000 div sint (frequency s)"
    and "spec_high_ms s = 1000 div sint (frequency s) * sint (duty_cycle s) div 100"
proof -
  show p: "spec_period_ms s = 1000 div sint (frequency s)"
    using f by (simp add: spec_period_ms_def sdiv_nonneg_pos)
  have "0 \<le> 1000 div sint (frequency s) * sint (duty_cycle s)"
    using period_bounds(1) [OF f] d0 by simp
  then show "spec_high_ms s = 1000 div sint (frequency s) * sint (duty_cycle s) div 100"
    by (simp add: spec_high_ms_def p sdiv_nonneg_pos)
qed

lemma pulse_times_spec:
  assumes f: "1 \<le> sint (frequency s)"
    and d0: "0 \<le> sint (duty_cycle s)" and d1: "sint (duty_cycle s) \<le> 100"
  shows "pulse_times s = Inr (spec_period_ms s, spec_high_ms s, spec_low_ms s)"
  by (simp add: pulse_times_in_range [OF f d0 d1] spec_times_in_range [OF f d0 d1]
      spec_low_ms_def)

text \<open>
  C7: each pass computes the period as \<open>1000 / frequency\<close> by truncating division, the
  high time as \<open>period * duty_cycle / 100\<close> and the low time as the difference. For a
  frequency of at least 1 and a duty cycle from 0 to 100 the computation succeeds with
  exactly these values, high and low time are not negative and add up to the period,
  and the period is 0 for every frequency above 1000.
\<close>

theorem pulse_times_formulas:
  assumes f: "1 \<le> sint (frequency s)"
    and d0: "0 \<le> sint (duty_cycle s)" and d1: "sint (duty_cycle s) \<le> 100"
  shows "pulse_times s = Inr (spec_period_ms s, spec_high_ms s, spec_low_ms s)
       \<and> spec_high_ms s + spec_low_ms s = spec_period_ms s
       \<and> 0 \<le> spec_high_ms s \<and> 0 \<le> spec_low_ms s \<and> spec_period_ms s \<le> 1000
       \<and> (1000 < sint (frequency s) \<longrightarrow> spec_period_ms s = 0)"
proof -
  note eqs = spec_times_in_range [OF f d0 d1]
  have p: "0 \<le> spec_period_ms s" "spec_period_ms s \<le> 1000"
    using period_bounds [OF f] by (simp_all add: eqs)
  have h: "0 \<le> spec_high_ms s" "spec_high_ms s \<le> spec_period_ms s"
    using high_bounds [OF p(1) d0 d1] by (simp_all add: eqs)
  have z: "spec_period_ms s = 0" if "1000 < sint (frequency s)"
    using that by (simp add: eqs div_pos_pos_trivial)
  show ?thesis
    using pulse_times_spec [OF f d0 d1] p h z by (simp add: spec_low_ms_def)
qed

theorem pulse_times_formulas_witness:
  "1 \<le> sint (frequency (initial_generator\<lparr>frequency := 3, duty_cycle := 37\<rparr>))
   \<and> 0 \<le> sint (duty_cycle (initial_generator\<lparr>frequency := 3, duty_cycle := 37\<rparr>))
   \<and> sint (duty_cycle (initial_generator\<lparr>frequency := 3, duty_cycle := 37\<rparr>)) \<le> 100
   \<and> pulse_times (initial_generator\<lparr>frequency := 3, duty_cycle := 37\<rparr>) = Inr (333, 123, 210)
   \<and> 1000 < sint (frequency (initial_generator\<lparr>frequency := 2000\<rparr>))
   \<and> pulse_times (initial_generator\<lparr>frequency := 2000\<rparr>) = Inr (0, 0, 0)"
  using pulse_times_formulas [of "initial_generator\<lparr>frequency := 3, duty_cycle := 37\<rparr>"]
    pulse_times_formulas [of "initial_generator\<lparr>frequency := 2000\<rparr>"]
  by (simp add: initial_generator_def spec_period_ms_def spec_high_ms_def spec_low_ms_def)

section \<open>The pulse loop\<close>

lemma idle_iteration: "pulse s = 0 \<Longrightarrow> loop_iteration dbg s = Inr (s, [])"
  by (simp add: loop_iteration_def)

lemma idle_main_loop: "pulse s = 0 \<Longrightarrow> main_loop dbg n s = Inr (s, [])"
  by (induction n) (simp_all add: idle_iteration)

lemma repeating_main_loop:
  assumes "loop_iteration dbg s = Inr (s, cycle)"
  shows "main_loop dbg n s = Inr (s, concat (replicate n cycle))"
  by (induction n) (simp_all add: assms)

lemma modes_differ: "ASTABLE \<noteq> MONOSTABLE"
  by (simp add: ASTABLE_def MONOSTABLE_def)

text \<open>
  C1: with pulse enable set, the frequency at least 1 and the duty cycle from 0 to
  100, one pass of the loop in Monostable mode raises the clock pin and the pulse
  pin, sleeps for the high time, lowers both pins and clears pulse enable, with no
  further sleep (the debug line, when the build prints it, comes first); every
  number of further passes does nothing at all and leaves the state as it is. In
  Astable mode the pass emits the same high pulse, then sleeps for the low time and
  leaves the state unchanged, so that every further pass repeats the same cycle.
\<close>

theorem pulse_loop_pass:
  assumes en: "pulse s \<noteq> 0"
    and f: "1 \<le> sint (frequency s)"
    and d0: "0 \<le> sint (duty_cycle s)" and d1: "sint (duty_cycle s) \<le> 100"
  shows "(mode s = MONOSTABLE \<longrightarrow>
            loop_iteration dbg s =
              Inr (s\<lparr>pulse := 0\<rparr>,
                   (if dbg
                    then [DebugPrintf (mode s) (frequency s) (duty_cycle s)
                            (spec_high_ms s) (spec_low_ms s)]
                    else [])
                   @ [GpioPut CLOCK_PIN True, GpioPut PULSE_PIN True,
                      SleepMs (word_of_int (spec_high_ms s)),
                      GpioPut PULSE_PIN False, GpioPut CLOCK_PIN False])
            \<and> main_loop dbg n (s\<lparr>pulse := 0\<rparr>) = Inr (s\<lparr>pulse := 0\<rparr>, []))
       \<and> (mode s = ASTABLE \<longrightarrow>
            loop_iteration dbg s =
              Inr (s, (if dbg
                       then [DebugPrintf (mode s) (frequency s) (duty_cycle s)
                               (spec_high_ms s) (spec_low_ms s)]
                       else [])
                      @ [GpioPut CLOCK_PIN True, GpioPut PULSE_PIN True,
                         SleepMs (word_of_int (spec_high_ms s)),
                         GpioPut PULSE_PIN False, GpioPut CLOCK_PIN False,
                         SleepMs (word_of_int (spec_low_ms s))])
            \<and> main_loop dbg n s =
                Inr (s, concat (replicate n
                      ((if dbg
                        then [DebugPrintf (mode s) (frequency s) (duty_cycle s)
                                (spec_high_ms s) (spec_low_ms s)]
                        else [])
                       @ [GpioPut CLOCK_PIN True, GpioPut PULSE_PIN True,
                          SleepMs (word_of_int (spec_high_ms s)),
                          GpioPut PULSE_PIN False, GpioPut CLOCK_PIN False,
                          SleepMs (word_of_int (spec_low_ms s))]))))"
proof (intro conjI impI)
  note pt = pulse_times_spec [OF f d0 d1]
  {
    assume m: "mode s = MONOSTABLE"
    show "loop_iteration dbg s =
            Inr (s\<lparr>pulse := 0\<rparr>,
                 (if dbg
                  then [DebugPrintf (mode s) (frequency s) (duty_cycle s)
                          (spec_high_ms s) (spec_low_ms s)]
                  else [])
                 @ [GpioPut CLOCK_PIN True, GpioPut PULSE_PIN True,
                    SleepMs (word_of_int (spec_high_ms s)),
                    GpioPut PULSE_PIN False, GpioPut CLOCK_PIN False])"
      using en m modes_differ
      by (simp add: loop_iteration_def pt debug_line_def high_pulse_def)
    show "main_loop dbg n (s\<lparr>pulse := 0\<rparr>) = Inr (s\<lparr>pulse := 0\<rparr>, [])"
      by (rule idle_main_loop) simp
  }
  {
    assume m: "mode s = ASTABLE"
    have pass: "loop_iteration dbg s =
            Inr (s, (if dbg
                     then [DebugPrintf (mode s) (frequency s) (duty_cycle s)
                             (spec_high_ms s) (spec_low_ms s)]
                     else [])
                    @ [GpioPut CLOCK_PIN True, GpioPut PULSE_PIN True,
                       SleepMs (word_of_int (spec_high_ms s)),
                       GpioPut PULSE_PIN False, GpioPut CLOCK_PIN False,
                       SleepMs (word_of_int (spec_low_ms s))])"
      using en m by (simp add: loop_iteration_def pt debug_line_def high_pulse_def)
    show "loop_iteration dbg s =
            Inr (s, (if dbg
                     then [DebugPrintf (mode s) (frequency s) (duty_cycle s)
                             (spec_high_ms s) (spec_low_ms s)]
                     else [])
                    @ [GpioPut CLOCK_PIN True, GpioPut PULSE_PIN True,
                       SleepMs (word_of_int (spec_high_ms s)),
                       GpioPut PULSE_PIN False, GpioPut CLOCK_PIN False,
                       SleepMs (word_of_int (spec_low_ms s))])"
      by (rule pass)
    show "main_loop dbg n s =
            Inr (s, concat (replicate n
                  ((if dbg
                    then [DebugPrintf (mode s) (frequency s) (duty_cycle s)
                            (spec_high_ms s) (spec_low_ms s)]
                    else [])
                   @ [GpioPut CLOCK_PIN True, GpioPut PULSE_PIN True,
                      SleepMs (word_of_int (spec_high_ms s)),
                      GpioPut PULSE_PIN False, GpioPut CLOCK_PIN False,
                      SleepMs (word_of_int (spec_low_ms s))])))"
      by (rule repeating_main_loop [OF pass])
  }
qed

theorem pulse_loop_pass_witness:
  "pulse (initial_generator\<lparr>mode := MONOSTABLE\<rparr>) \<noteq> 0
   \<and> 1 \<le> sint (frequency (initial_generator\<lparr>mode := MONOSTABLE\<rparr>))
   \<and> 0 \<le> sint (duty_cycle (initial_generator\<lparr>mode := MONOSTABLE\<rparr>))
   \<and> sint (duty_cycle (initial_generator\<lparr>mode := MONOSTABLE\<rparr>)) \<le> 100
   \<and> mode (initial_generator\<lparr>mode := MONOSTABLE\<rparr>) = MONOSTABLE
   \<and> loop_iteration False (initial_generator\<lparr>mode := MONOSTABLE\<rparr>)
       = Inr (initial_generator\<lparr>mode := MONOSTABLE, pulse := 0\<rparr>,
              [GpioPut 28 True, GpioPut 16 True, SleepMs 500,
               GpioPut 16 False, GpioPut 28 False])
   \<and> main_loop False 3 (initial_generator\<lparr>mode := MONOSTABLE, pulse := 0\<rparr>)
       = Inr (initial_generator\<lparr>mode := MONOSTABLE, pulse := 0\<rparr>, [])
   \<and> pulse initial_generator \<noteq> 0
   \<and> mode initial_generator = ASTABLE
   \<and> loop_iteration True initial_generator
       = Inr (initial_generator,
              [DebugPrintf 0 1 50 500 500,
               GpioPut 28 True, GpioPut 16 True, SleepMs 500,
               GpioPut 16 False, GpioPut 28 False, SleepMs 500])
   \<and> main_loop False 2 initial_generator
       = Inr (initial_generator,
              [GpioPut 28 True, GpioPut 16 True, SleepMs 500,
               GpioPut 16 False, GpioPut 28 False, SleepMs 500,
               GpioPut 28 True, GpioPut 16 True, SleepMs 500,
               GpioPut 16 False, GpioPut 28 False, SleepMs 500])"
  using pulse_loop_pass [of "initial_generator\<lparr>mode := MONOSTABLE\<rparr>" False 3]
    pulse_loop_pass [of initial_generator True 2]
    pulse_loop_pass [of initial_generator False 2]
  by (simp add: initial_generator_def spec_period_ms_def spec_high_ms_def spec_low_ms_def
      numeral_2_eq_2 CLOCK_PIN_def PULSE_PIN_def ASTABLE_def MONOSTABLE_def)

section \<open>The button interrupt\<close>

lemma pins_differ: "MODE_PIN \<noteq> STEP_PIN"
  by (simp add: MODE_PIN_def STEP_PIN_def)

lemma dropped_edge: "debounced now s \<Longrightarrow> handle_button_interrupt gpio now s = s"
  by (simp add: handle_button_interrupt_def)

lemma accepted_edge_stamp:
  "\<not> debounced now s \<Longrightarrow> last_interrupt_ms (handle_button_interrupt gpio now s) = now"
  by (simp add: handle_button_interrupt_def Let_def)


text \<open>
  C5, as the claim states it, fails: an accepted edge on the MODE button at 1000 ms
  puts the generator into Monostable mode, and an edge on the STEP button 100 ms later
  is dropped by the debounce check, so pulse enable stays cleared.
\<close>

theorem step_edge_suppressed_by_mode_edge:
  "MODE_PIN \<noteq> STEP_PIN
   \<and> \<not> debounced 1000 initial_generator
   \<and> mode (handle_button_interrupt MODE_PIN 1000 initial_generator) = MONOSTABLE
   \<and> (1100 :: 32 word) - 1000 < DEBOUNCE_DELAY
   \<and> debounced 1100 (handle_button_interrupt MODE_PIN 1000 initial_generator)
   \<and> pulse (handle_button_interrupt STEP_PIN 1100
              (handle_button_interrupt MODE_PIN 1000 initial_generator)) = 0"
  by (simp add: handle_button_interrupt_def debounced_def initial_generator_def
      DEBOUNCE_DELAY_def MODE_PIN_def STEP_PIN_def ASTABLE_def MONOSTABLE_def)

text \<open>
  C5, amended: there is one debounce timestamp, shared by both buttons. Of two edges
  less than 200 ms apart, on the same button or on different ones, at most one is
  accepted: if the first is dropped it changes nothing, and if the first is accepted
  the second is dropped and changes nothing.
\<close>

theorem debounce_window_shared:
  assumes near: "t2 - t1 < DEBOUNCE_DELAY"
  shows "(debounced t1 s \<longrightarrow> handle_button_interrupt g1 t1 s = s)
       \<and> (\<not> debounced t1 s \<longrightarrow>
            debounced t2 (handle_button_interrupt g1 t1 s)
            \<and> handle_button_interrupt g2 t2 (handle_button_interrupt g1 t1 s)
                = handle_button_interrupt g1 t1 s)"
proof (intro conjI impI)
  assume "debounced t1 s"
  then show "handle_button_interrupt g1 t1 s = s" by (rule dropped_edge)
next
  assume acc: "\<not> debounced t1 s"
  show d: "debounced t2 (handle_button_interrupt g1 t1 s)"
    using near by (simp add: debounced_def accepted_edge_stamp [OF acc])
  show "handle_button_interrupt g2 t2 (handle_button_interrupt g1 t1 s)
          = handle_button_interrupt g1 t1 s"
    using d by (rule dropped_edge)
qed

theorem debounce_window_shared_witness:
  "(1100 :: 32 word) - 1000 < DEBOUNCE_DELAY
   \<and> \<not> debounced 1000 initial_generator
   \<and> debounced 1100 (handle_button_interrupt MODE_PIN 1000 initial_generator)
   \<and> handle_button_interrupt MODE_PIN 1100 (handle_button_interrupt MODE_PIN 1000 initial_generator)
       = handle_button_interrupt MODE_PIN 1000 initial_generator
   \<and> (1150 :: 32 word) - 1100 < DEBOUNCE_DELAY
   \<and> debounced 1100 (initial_generator\<lparr>last_interrupt_ms := 1000\<rparr>)
   \<and> handle_button_interrupt STEP_PIN 1100 (initial_generator\<lparr>last_interrupt_ms := 1000\<rparr>)
       = initial_generator\<lparr>last_interrupt_ms := 1000\<rparr>"
proof -
  have near: "(1100 :: 32 word) - 1000 < DEBOUNCE_DELAY" by (simp add: DEBOUNCE_DELAY_def)
  have acc: "\<not> debounced 1000 initial_generator"
    by (simp add: debounced_def initial_generator_def DEBOUNCE_DELAY_def)
  have near': "(1150 :: 32 word) - 1100 < DEBOUNCE_DELAY" by (simp add: DEBOUNCE_DELAY_def)
  have rej: "debounced 1100 (initial_generator\<lparr>last_interrupt_ms := 1000\<rparr>)"
    by (simp add: debounced_def DEBOUNCE_DELAY_def)
  show ?thesis
    using near acc near' rej
      debounce_window_shared [OF near, of initial_generator MODE_PIN MODE_PIN]
      debounce_window_shared [OF near', of "initial_generator\<lparr>last_interrupt_ms := 1000\<rparr>"
        STEP_PIN MODE_PIN]
    by simp
qed

text \<open>
  C6: from Astable mode, two accepted edges on the MODE button (each one outside the
  debounce window of the edge before it) lead through Monostable mode with pulse
  enable cleared back to Astable mode with pulse enable set; when pulse enable was
  set before, the generator is back in its first state but for the timestamp.
\<close>

theorem mode_toggle_twice:
  assumes m: "mode s = ASTABLE"
    and a1: "\<not> debounced t1 s"
    and a2: "\<not> t2 - t1 < DEBOUNCE_DELAY"
  shows "handle_button_interrupt MODE_PIN t1 s
           = s\<lparr>mode := MONOSTABLE, pulse := 0, last_interrupt_ms := t1\<rparr>
       \<and> handle_button_interrupt MODE_PIN t2 (handle_button_interrupt MODE_PIN t1 s)
           = s\<lparr>mode := ASTABLE, pulse := 1, last_interrupt_ms := t2\<rparr>
       \<and> (pulse s = 1 \<longrightarrow>
            handle_button_interrupt MODE_PIN t2 (handle_button_interrupt MODE_PIN t1 s)
              = s\<lparr>last_interrupt_ms := t2\<rparr>)"
proof -
  have 1: "handle_button_interrupt MODE_PIN t1 s
             = s\<lparr>mode := MONOSTABLE, pulse := 0, last_interrupt_ms := t1\<rparr>"
    using m a1 by (simp add: handle_button_interrupt_def)
  have 2: "handle_button_interrupt MODE_PIN t2 (handle_button_interrupt MODE_PIN t1 s)
             = s\<lparr>mode := ASTABLE, pulse := 1, last_interrupt_ms := t2\<rparr>"
    using a2 modes_differ unfolding 1 by (simp add: handle_button_interrupt_def debounced_def)
  have 3: "s\<lparr>mode := ASTABLE, pulse := 1, last_interrupt_ms := t2\<rparr> = s\<lparr>last_interrupt_ms := t2\<rparr>"
    if "pulse s = 1"
    using m that by simp
  show ?thesis using 1 2 3 by simp
qed

theorem mode_toggle_twice_witness:
  "mode initial_generator = ASTABLE
   \<and> pulse initial_generator = 1
   \<and> \<not> debounced 1000 initial_generator
   \<and> \<not> (1300 :: 32 word) - 1000 < DEBOUNCE_DELAY
   \<and> handle_button_interrupt MODE_PIN 1000 initial_generator
       = initial_generator\<lparr>mode := MONOSTABLE, pulse := 0, last_interrupt_ms := 1000\<rparr>
   \<and> handle_button_interrupt MODE_PIN 1300 (handle_button_interrupt MODE_PIN 1000 initial_generator)
       = initial_generator\<lparr>last_interrupt_ms := 1300\<rparr>"
proof -
  have m: "mode initial_generator = ASTABLE" and p: "pulse initial_generator = 1"
    by (simp_all add: initial_generator_def)
  have a1: "\<not> debounced 1000 initial_generator"
    by (simp add: debounced_def initial_generator_def DEBOUNCE_DELAY_def)
  have a2: "\<not> (1300 :: 32 word) - 1000 < DEBOUNCE_DELAY" by (simp add: DEBOUNCE_DELAY_def)
  note twice = mode_toggle_twice [OF m a1 a2]
  show ?thesis
    by (intro conjI m p a1 a2 twice [THEN conjunct1]
        twice [THEN conjunct2, THEN conjunct2, THEN mp, OF p])
qed

text \<open>
  C10: an edge on the STEP button that passes the debounce check in Astable mode
  changes the timestamp and nothing else. An edge on the STEP button never changes
  the mode, and it changes pulse enable only when it passes the debounce check in
  Monostable mode, where it sets it.
\<close>

theorem step_edge_astable:
  "(\<not> debounced now s \<and> mode s = ASTABLE \<longrightarrow>
      handle_button_interrupt STEP_PIN now s = s\<lparr>last_interrupt_ms := now\<rparr>)
   \<and> mode (handle_button_interrupt STEP_PIN now s) = mode s
   \<and> (pulse (handle_button_interrupt STEP_PIN now s) \<noteq> pulse s \<longrightarrow>
        mode s = MONOSTABLE \<and> \<not> debounced now s
        \<and> pulse (handle_button_interrupt STEP_PIN now s) = 1)"
  using pins_differ modes_differ
  by (auto simp add: handle_button_interrupt_def Let_def)

theorem step_edge_astable_witness:
  "\<not> debounced 1000 initial_generator
   \<and> mode initial_generator = ASTABLE
   \<and> handle_button_interrupt STEP_PIN 1000 initial_generator
       = initial_generator\<lparr>last_interrupt_ms := 1000\<rparr>
   \<and> pulse (handle_button_interrupt STEP_PIN 1000
              (initial_generator\<lparr>mode := MONOSTABLE, pulse := 0\<rparr>))
       \<noteq> pulse (initial_generator\<lparr>mode := MONOSTABLE, pulse := 0\<rparr>)
   \<and> mode (initial_generator\<lparr>mode := MONOSTABLE, pulse := 0\<rparr>) = MONOSTABLE
   \<and> pulse (handle_button_interrupt STEP_PIN 1000
              (initial_generator\<lparr>mode := MONOSTABLE, pulse := 0\<rparr>)) = 1"
proof -
  have a: "\<not> debounced 1000 initial_generator"
    by (simp add: debounced_def initial_generator_def DEBOUNCE_DELAY_def)
  have m: "mode initial_generator = ASTABLE" by (simp add: initial_generator_def)
  have ch: "pulse (handle_button_interrupt STEP_PIN 1000
              (initial_generator\<lparr>mode := MONOSTABLE, pulse := 0\<rparr>))
       \<noteq> pulse (initial_generator\<lparr>mode := MONOSTABLE, pulse := 0\<rparr>)"
    using pins_differ
    by (simp add: handle_button_interrupt_def debounced_def initial_generator_def
        DEBOUNCE_DELAY_def)
  note astable = step_edge_astable [of 1000 initial_generator,
      THEN conjunct1, THEN mp, OF conjI [OF a m]]
  note monostable = step_edge_astable
      [of 1000 "initial_generator\<lparr>mode := MONOSTABLE, pulse := 0\<rparr>",
       THEN conjunct2, THEN conjunct2, THEN mp, OF ch]
  show ?thesis
    by (intro conjI a m ch astable monostable [THEN conjunct1]
        monostable [THEN conjunct2, THEN conjunct2])
qed

section \<open>The line buffer\<close>

lemma initial_console_ok: "console_ok initial_console"
  by (simp add: console_ok_def initial_console_def)

text \<open>Every tick keeps the buffer at 256 bytes, the index below 256 and the tail cleared.\<close>

lemma callback_keeps_console_ok:
  assumes ok: "console_ok c"
  shows "console_ok (fst (cmd_timer_callback ch c))"
proof -
  from ok have len: "length (cmd_buffer c) = 256" and idx: "index c \<le> 255"
    and tail: "drop (index c) (cmd_buffer c) = replicate (256 - index c) NUL"
    by (simp_all add: console_ok_def)
  have erase:
    "console_ok (c\<lparr>cmd_buffer := (cmd_buffer c)[index c - 1 := NUL], index := index c - 1\<rparr>)"
    if pos: "index c \<noteq> 0"
  proof -
    obtain i where i: "index c = Suc i" using pos by (cases "index c") simp_all
    have "drop i ((cmd_buffer c)[i := NUL]) = NUL # drop (Suc i) (cmd_buffer c)"
      using len idx i
      by (simp add: drop_update_cancel Cons_nth_drop_Suc [symmetric] upd_conv_take_nth_drop)
    also have "\<dots> = NUL # replicate (256 - Suc i) NUL" using tail i by simp
    also have "\<dots> = replicate (256 - i) NUL"
      using idx i by (simp add: Suc_diff_le replicate_Suc [symmetric] del: replicate_Suc)
    finally show ?thesis using len idx i by (simp add: console_ok_def)
  qed
  have store:
    "console_ok (c\<lparr>cmd_buffer := (cmd_buffer c)[index c := x], index := index c + 1\<rparr>)"
    if room: "index c < 255" for x
  proof -
    have "drop (Suc (index c)) ((cmd_buffer c)[index c := x])
            = drop (Suc (index c)) (cmd_buffer c)"
      by (simp add: drop_update_cancel)
    also have "\<dots> = drop 1 (drop (index c) (cmd_buffer c))" by simp
    also have "\<dots> = replicate (256 - Suc (index c)) NUL" unfolding tail by simp
    finally show ?thesis using len room by (simp add: console_ok_def)
  qed
  have clear: "console_ok (c\<lparr>cmd_buffer := replicate 256 NUL, index := 0\<rparr>)"
    by (simp add: console_ok_def)
  consider (timeout) "ch = PICO_ERROR_TIMEOUT"
    | (erase_empty) "ch \<noteq> PICO_ERROR_TIMEOUT" "ch = 0x08 \<or> ch = 0x7F" "index c = 0"
    | (erase_last) "ch \<noteq> PICO_ERROR_TIMEOUT" "ch = 0x08 \<or> ch = 0x7F" "index c \<noteq> 0"
    | (newline) "ch \<noteq> PICO_ERROR_TIMEOUT" "\<not> (ch = 0x08 \<or> ch = 0x7F)"
        "ch = 0x0A \<or> ch = 0x0D"
    | (room) "ch \<noteq> PICO_ERROR_TIMEOUT" "\<not> (ch = 0x08 \<or> ch = 0x7F)"
        "\<not> (ch = 0x0A \<or> ch = 0x0D)" "index c < 255"
    | (full) "ch \<noteq> PICO_ERROR_TIMEOUT" "\<not> (ch = 0x08 \<or> ch = 0x7F)"
        "\<not> (ch = 0x0A \<or> ch = 0x0D)" "\<not> index c < 255"
    by blast
  then show ?thesis
  proof cases
    case timeout
    then show ?thesis using ok by (simp add: cmd_timer_callback_def)
  next
    case erase_empty
    then show ?thesis using ok by (simp add: cmd_timer_callback_def)
  next
    case erase_last
    then show ?thesis using erase by (simp add: cmd_timer_callback_def)
  next
    case newline
    then show ?thesis using clear by (simp add: cmd_timer_callback_def)
  next
    case room
    then show ?thesis using store [of "char_of ch"] by (simp add: cmd_timer_callback_def)
  next
    case full
    then show ?thesis using ok by (simp add: cmd_timer_callback_def)
  qed
qed

lemma ticks_keep_console_ok:
  "console_ok c \<Longrightarrow> console_ok (fst (console_ticks chs c))"
proof (induction chs arbitrary: c)
  case Nil
  then show ?case by simp
next
  case (Cons ch chs)
  have "console_ok (fst (cmd_timer_callback ch c))"
    using Cons.prems by (rule callback_keeps_console_ok)
  then have "console_ok (fst (console_ticks chs (fst (cmd_timer_callback ch c))))"
    by (rule Cons.IH)
  then show ?case by (simp add: split_beta)
qed

lemma c_str_stops: "length (c_str (xs @ NUL # ys)) \<le> length xs"
  by (induction xs) (simp_all add: c_str_def)

lemma held_string_short:
  assumes ok: "console_ok c"
  shows "length (c_str (cmd_buffer c)) \<le> index c"
proof -
  have pos: "256 - index c = Suc (255 - index c)" using ok unfolding console_ok_def by arith
  have "cmd_buffer c = take (index c) (cmd_buffer c) @ drop (index c) (cmd_buffer c)"
    by simp
  also have "\<dots> = take (index c) (cmd_buffer c) @ NUL # replicate (255 - index c) NUL"
    using ok pos by (simp add: console_ok_def)
  finally have "length (c_str (cmd_buffer c)) \<le> length (take (index c) (cmd_buffer c))"
    using c_str_stops [of "take (index c) (cmd_buffer c)" "replicate (255 - index c) NUL"]
    by simp
  then show ?thesis by simp
qed

lemma callback_executes_iff:
  "list_ex is_execute (snd (cmd_timer_callback ch c)) \<longleftrightarrow> ch = 0x0A \<or> ch = 0x0D"
  by (simp add: cmd_timer_callback_def is_execute_def PICO_ERROR_TIMEOUT_def)

lemma ticks_without_newline:
  "0x0A \<notin> set chs \<Longrightarrow> 0x0D \<notin> set chs \<Longrightarrow>
     \<not> list_ex is_execute (snd (console_ticks chs c))"
proof (induction chs arbitrary: c)
  case Nil
  then show ?case by simp
next
  case (Cons ch chs)
  have 1: "\<not> list_ex is_execute (snd (cmd_timer_callback ch c))"
    using Cons.prems by (auto simp add: callback_executes_iff)
  have 2: "\<not> list_ex is_execute (snd (console_ticks chs (fst (cmd_timer_callback ch c))))"
    using Cons.prems by (intro Cons.IH) simp_all
  show ?case using 1 2 by (simp add: split_beta)
qed

subsection \<open>Typing a line\<close>

lemma line_console_empty: "line_console [] = initial_console"
  by (simp add: line_console_def initial_console_def)

lemma line_console_ok: "length p \<le> 255 \<Longrightarrow> console_ok (line_console p)"
  by (simp add: line_console_def console_ok_def)

lemma type_byte:
  assumes room: "length p < 255" and plain: "\<not> is_control ch"
  shows "cmd_timer_callback ch (line_console p) = (line_console (p @ [char_of ch]), [])"
proof -
  have rest: "256 - length p = Suc (255 - length p)" using room by arith
  have "(p @ replicate (256 - length p) NUL)[length p := char_of ch]
          = (p @ [char_of ch]) @ replicate (255 - length p) NUL"
    unfolding rest by (simp add: list_update_append)
  then show ?thesis
    using room plain by (simp add: cmd_timer_callback_def line_console_def is_control_def)
qed

lemma type_byte_full:
  assumes full: "length p = 255" and plain: "\<not> is_control ch"
  shows "cmd_timer_callback ch (line_console p) = (line_console p, [])"
  using full plain by (simp add: cmd_timer_callback_def line_console_def is_control_def)

text \<open>
  Bytes that are not control values, typed one per tick: the line grows up to 255
  characters, what comes after that is dropped, and nothing is printed or executed.
\<close>

lemma type_bytes:
  "\<forall>ch \<in> set chs. \<not> is_control ch \<Longrightarrow> length p \<le> 255 \<Longrightarrow>
     console_ticks chs (line_console p) = (line_console (take 255 (p @ map char_of chs)), [])"
proof (induction chs arbitrary: p)
  case Nil
  then show ?case by simp
next
  case (Cons ch chs)
  have plain: "\<not> is_control ch" and rest: "\<forall>x \<in> set chs. \<not> is_control x"
    using Cons.prems(1) by simp_all
  show ?case
  proof (cases "length p < 255")
    case True
    have "console_ticks chs (line_console (p @ [char_of ch]))
            = (line_console (take 255 ((p @ [char_of ch]) @ map char_of chs)), [])"
      using rest True by (intro Cons.IH) simp_all
    then show ?thesis by (simp add: type_byte [OF True plain])
  next
    case False
    then have full: "length p = 255" using Cons.prems(2) by simp
    have "console_ticks chs (line_console p)
            = (line_console (take 255 (p @ map char_of chs)), [])"
      using rest Cons.prems(2) by (rule Cons.IH)
    then show ?thesis by (simp add: type_byte_full [OF full plain] full)
  qed
qed

text \<open>
  The end of the line: the buffer goes to \<open>cmd_execute\<close> as it is, the line followed
  by NUL bytes, and is cleared.
\<close>

lemma type_newline:
  assumes "ch = 0x0A \<or> ch = 0x0D"
  shows "cmd_timer_callback ch (line_console p)
           = (initial_console, [Execute (p @ replicate (256 - length p) NUL)])"
  using assms
  by (auto simp add: cmd_timer_callback_def line_console_def initial_console_def
      PICO_ERROR_TIMEOUT_def)

lemma console_ticks_append:
  "console_ticks (xs @ ys) c =
     (fst (console_ticks ys (fst (console_ticks xs c))),
      snd (console_ticks xs c) @ snd (console_ticks ys (fst (console_ticks xs c))))"
  by (induction xs arbitrary: c) (simp_all add: split_beta)

lemma type_line:
  assumes plain: "\<forall>ch \<in> set chs. \<not> is_control ch" and short: "length chs \<le> 255"
  shows "console_ticks (chs @ [0x0D]) initial_console
           = (initial_console, [Execute (map char_of chs @ replicate (256 - length chs) NUL)])"
proof -
  have typed: "console_ticks chs initial_console = (line_console (map char_of chs), [])"
    using type_bytes [OF plain, of "[]"] short by (simp add: line_console_empty)
  show ?thesis
    by (simp add: console_ticks_append typed type_newline)
qed

lemma char_of_letter_a: "char_of letter_a = CHR ''a''"
  by (simp add: letter_a_def char_of_def)

lemma letter_a_plain: "\<not> is_control letter_a"
  by (simp add: is_control_def letter_a_def PICO_ERROR_TIMEOUT_def)

text \<open>
  260 letters on an empty line: the first 255 are stored, the last five are dropped,
  nothing is executed.
\<close>

lemma type_260_letters:
  "console_ticks (replicate 260 letter_a) initial_console
     = (line_console (replicate 255 (CHR ''a'')), [])"
proof -
  have "take 255 (map char_of (replicate 260 letter_a)) = replicate 255 (CHR ''a'')"
    by (simp add: char_of_letter_a)
  then show ?thesis
    using type_bytes [of "replicate 260 letter_a" "[]"] letter_a_plain
    by (simp add: line_console_empty)
qed

text \<open>
  C8: from a line buffer in order, every sequence of ticks leaves it in order (256
  bytes, index at most 255, NUL from the index on), so the string it holds has at most
  255 characters. A byte that is not a control value is dropped without any effect
  when the index is 255. A tick calls \<open>cmd_execute\<close> exactly when it reads a newline
  or a carriage return, so a sequence of ticks without either calls it never. A
  backspace or delete at index 0 leaves the buffer as it is and prints one space.
\<close>

theorem line_buffer_bounded:
  assumes ok: "console_ok c"
  shows "console_ok (fst (console_ticks chs c))
       \<and> length (c_str (cmd_buffer (fst (console_ticks chs c)))) \<le> 255
       \<and> (index c = 255 \<and> \<not> is_control ch \<longrightarrow> cmd_timer_callback ch c = (c, []))
       \<and> (list_ex is_execute (snd (cmd_timer_callback ch c)) \<longleftrightarrow> ch = 0x0A \<or> ch = 0x0D)
       \<and> (0x0A \<notin> set chs \<and> 0x0D \<notin> set chs \<longrightarrow>
            \<not> list_ex is_execute (snd (console_ticks chs c)))
       \<and> (index c = 0 \<and> (ch = 0x08 \<or> ch = 0x7F) \<longrightarrow>
            cmd_timer_callback ch c = (c, [Printf '' '' []]))"
proof (intro conjI)
  have inv: "console_ok (fst (console_ticks chs c))" using ok by (rule ticks_keep_console_ok)
  show "console_ok (fst (console_ticks chs c))" by (rule inv)
  show "length (c_str (cmd_buffer (fst (console_ticks chs c)))) \<le> 255"
    using held_string_short [OF inv] inv by (simp add: console_ok_def)
  show "index c = 255 \<and> \<not> is_control ch \<longrightarrow> cmd_timer_callback ch c = (c, [])"
    by (simp add: cmd_timer_callback_def is_control_def)
  show "list_ex is_execute (snd (cmd_timer_callback ch c)) \<longleftrightarrow> ch = 0x0A \<or> ch = 0x0D"
    by (rule callback_executes_iff)
  show "0x0A \<notin> set chs \<and> 0x0D \<notin> set chs \<longrightarrow>
          \<not> list_ex is_execute (snd (console_ticks chs c))"
    using ticks_without_newline by blast
  show "index c = 0 \<and> (ch = 0x08 \<or> ch = 0x7F) \<longrightarrow>
          cmd_timer_callback ch c = (c, [Printf '' '' []])"
    by (auto simp add: cmd_timer_callback_def PICO_ERROR_TIMEOUT_def)
qed

theorem line_buffer_bounded_witness:
  "console_ok initial_console
   \<and> 0x0A \<notin> set (replicate 260 letter_a) \<and> 0x0D \<notin> set (replicate 260 letter_a)
   \<and> console_ok (fst (console_ticks (replicate 260 letter_a) initial_console))
   \<and> length (c_str (cmd_buffer (fst (console_ticks (replicate 260 letter_a) initial_console))))
       \<le> 255
   \<and> \<not> list_ex is_execute (snd (console_ticks (replicate 260 letter_a) initial_console))
   \<and> index initial_console = 0
   \<and> cmd_timer_callback 0x08 initial_console = (initial_console, [Printf '' '' []])
   \<and> list_ex is_execute (snd (cmd_timer_callback 0x0D initial_console))
   \<and> console_ok (line_console (replicate 255 (CHR ''a'')))
   \<and> index (line_console (replicate 255 (CHR ''a''))) = 255
   \<and> \<not> is_control letter_a
   \<and> cmd_timer_callback letter_a (line_console (replicate 255 (CHR ''a''))) = (line_console (replicate 255 (CHR ''a'')), [])"
proof -
  have nl: "0x0A \<notin> set (replicate 260 letter_a) \<and> 0x0D \<notin> set (replicate 260 letter_a)"
    by (simp add: letter_a_def)
  have i0: "index initial_console = 0" by (simp add: initial_console_def)
  have i255: "index (line_console (replicate 255 (CHR ''a''))) = 255" by (simp add: line_console_def)
  have full: "console_ok (line_console (replicate 255 (CHR ''a'')))" by (simp add: line_console_ok)
  note empty_line = line_buffer_bounded [OF initial_console_ok, of "replicate 260 letter_a" "0x08"]
  note cr = line_buffer_bounded [OF initial_console_ok, of "[]" "0x0D"]
  note full_line = line_buffer_bounded [OF full, of "[]" letter_a]
  show ?thesis
    by (intro conjI initial_console_ok nl [THEN conjunct1] nl [THEN conjunct2] i0 i255 full
        letter_a_plain
        empty_line [THEN conjunct1]
        empty_line [THEN conjunct2, THEN conjunct1]
        empty_line [THEN conjunct2, THEN conjunct2, THEN conjunct2, THEN conjunct2,
          THEN conjunct1, THEN mp, OF nl]
        empty_line [THEN conjunct2, THEN conjunct2, THEN conjunct2, THEN conjunct2,
          THEN conjunct2, THEN mp, OF conjI [OF i0 disjI1 [OF refl]]]
        cr [THEN conjunct2, THEN conjunct2, THEN conjunct2, THEN conjunct1,
          THEN iffD2, OF disjI2 [OF refl]]
        full_line [THEN conjunct2, THEN conjunct2, THEN conjunct1, THEN mp,
          OF conjI [OF i255 letter_a_plain]])
qed

section \<open>The command interpreter\<close>

lemma freq_prefix_excludes:
  assumes "strncmp_eq cmd ''freq'' 4"
  shows "\<not> strcmp_eq cmd ''?''" "\<not> strcmp_eq cmd ''start''" "\<not> strcmp_eq cmd ''stop''"
    "\<not> strcmp_eq cmd ''step''"
  using assms by (auto simp add: strncmp_eq_def strcmp_eq_def)

lemma duty_prefix_excludes:
  assumes "strncmp_eq cmd ''duty'' 4"
  shows "\<not> strcmp_eq cmd ''?''" "\<not> strcmp_eq cmd ''start''" "\<not> strcmp_eq cmd ''stop''"
    "\<not> strcmp_eq cmd ''step''" "\<not> strncmp_eq cmd ''freq'' 4"
  using assms by (auto simp add: strncmp_eq_def strcmp_eq_def)

lemma atoi_in_int_range: "atoi str = Inr n \<Longrightarrow> in_int_range n"
  by (auto simp add: atoi_def Let_def split: if_splits)

lemma atoi_examples:
  "atoi ''0'' = Inr 0" "atoi ''1000'' = Inr 1000" "atoi ''65566'' = Inr 65566"
  "atoi ''200000000'' = Inr 200000000" "atoi ''-5'' = Inr (- 5)"
  by (simp_all add: atoi_def isspace_def isdigit_def in_int_range_def INT_MIN_def INT_MAX_def)

subsection \<open>Conversion of the parsed number\<close>

lemma uint_of_nonneg_int:
  assumes "in_int_range n" and "0 \<le> n"
  shows "uint (word_of_int n :: 32 word) = n"
proof -
  have "n < 2 ^ 32" using assms by (simp add: in_int_range_def INT_MAX_def)
  then show ?thesis using assms by (simp add: uint_word_of_int take_bit_eq_mod)
qed

lemma uint_of_negative_int:
  assumes "in_int_range n" and "n < 0"
  shows "uint (word_of_int n :: 32 word) = n + 2 ^ 32"
proof -
  have "- (2 ^ 32) \<le> n" using assms by (simp add: in_int_range_def INT_MIN_def)
  then have "(n + 2 ^ 32) mod 2 ^ 32 = n + 2 ^ 32"
    using assms by (intro mod_pos_pos_trivial) simp_all
  then have "n mod 2 ^ 32 = n + 2 ^ 32" by simp
  then show ?thesis by (simp add: uint_word_of_int take_bit_eq_mod)
qed

text \<open>
  The test \<open>hz > 125000000\<close> on the converted number: it holds for the numbers above
  the limit and for every negative number, and fails for 0.
\<close>

lemma freq_guard:
  assumes "in_int_range n"
  shows "(125000000 < (word_of_int n :: 32 word)) \<longleftrightarrow> n < 0 \<or> 125000000 < n"
proof (cases "n < 0")
  case True
  then show ?thesis
    using assms uint_of_negative_int [OF assms True]
    by (simp add: word_less_def in_int_range_def INT_MIN_def)
next
  case False
  then show ?thesis
    using uint_of_nonneg_int [OF assms] by (simp add: word_less_def)
qed

text \<open>The test \<open>duty_cycle > 100\<close> sees the low 16 bits of the number only.\<close>

lemma duty_guard: "(100 < (word_of_int n :: 16 word)) \<longleftrightarrow> 100 < n mod 65536"
  by (simp add: word_less_def uint_word_of_int take_bit_eq_mod)

subsection \<open>The \<open>freq\<close> and \<open>duty\<close> commands, for every clock\<close>

lemma freq_command:
  assumes pre: "strncmp_eq cmd ''freq'' 4" and n: "atoi (c_str (drop 5 cmd)) = Inr n"
  shows "cmd_execute api cmd s =
           (if n < 0 \<or> 125000000 < n
            then Inr (s, cmd_stop
                         @ [Printf ''Frequency cannot be greater than 125000000\<newline>'' []]
                         @ cmd_run)
            else Inr (clock_set_freq_hz api (word_of_int n) s,
                      cmd_stop @ cmd_info api (clock_set_freq_hz api (word_of_int n) s)
                      @ cmd_run))"
  using freq_prefix_excludes [OF pre] pre freq_guard [OF atoi_in_int_range [OF n]]
  by (simp add: cmd_execute_def n Let_def)

lemma duty_command:
  assumes pre: "strncmp_eq cmd ''duty'' 4" and n: "atoi (c_str (drop 5 cmd)) = Inr n"
  shows "cmd_execute api cmd s =
           (if clock_get_timer_type api s = CLOCK_TIMER_RPT api
            then Inr (s, cmd_stop
                         @ [Printf ''Duty cycle can only be set in PWM mode\<newline>'' []]
                         @ cmd_run)
            else if 100 < n mod 65536
            then Inr (s, cmd_stop
                         @ [Printf ''Duty cycle cannot be greater than 100\<newline>'' []]
                         @ cmd_run)
            else Inr (clock_set_duty_cycle api (word_of_int n) s,
                      cmd_stop @ cmd_info api (clock_set_duty_cycle api (word_of_int n) s)
                      @ cmd_run))"
  using duty_prefix_excludes [OF pre] pre
  by (simp add: cmd_execute_def n Let_def duty_guard)

text \<open>
  The bytes after the string's NUL do not matter to the interpreter: on the console's
  buffer, which pads the line with NUL bytes, it does what it does on the line alone.
\<close>

lemma c_str_padding: "NUL \<notin> set w \<Longrightarrow> c_str (w @ replicate k NUL) = w"
  by (induction w) (auto simp add: c_str_def takeWhile_replicate)

lemma c_str_plain: "NUL \<notin> set w \<Longrightarrow> c_str w = w"
  using c_str_padding [of w 0] by simp

lemma c_str_drop_padding:
  assumes "NUL \<notin> set w"
  shows "c_str (drop m (w @ replicate k NUL)) = c_str (drop m w)"
proof -
  have w: "NUL \<notin> set (drop m w)" using assms by (meson in_set_dropD)
  have "c_str (drop m (w @ replicate k NUL)) = c_str (drop m w @ replicate (k - (m - length w)) NUL)"
    by simp
  also have "\<dots> = drop m w" using w by (rule c_str_padding)
  also have "\<dots> = c_str (drop m w)" using w by (simp add: c_str_plain)
  finally show ?thesis .
qed

lemma cmd_execute_padding:
  assumes "NUL \<notin> set w"
  shows "cmd_execute api (w @ replicate k NUL) s = cmd_execute api w s"
  unfolding cmd_execute_def strcmp_eq_def strncmp_eq_def
    c_str_padding [OF assms] c_str_plain [OF assms] c_str_drop_padding [OF assms]
  by (rule refl)

subsection \<open>The spec-modelled clock\<close>

lemma spec_clock_set_freq:
  "hz \<noteq> 0 \<Longrightarrow> hz \<le> 125000000 \<Longrightarrow>
     clock_set_freq_hz spec_clock hz c = c\<lparr>clk_freq_hz := hz\<rparr>"
  by (simp add: spec_clock_def not_less [symmetric])


lemma spec_clock_read_back:
  "hz \<noteq> 0 \<Longrightarrow> hz \<le> 125000000 \<Longrightarrow>
     clock_get_freq_hz spec_clock (clock_set_freq_hz spec_clock hz c) = hz"
  by (simp add: spec_clock_set_freq) (simp add: spec_clock_def)

lemma spec_clock_set_duty:
  "clock_set_duty_cycle spec_clock pct c = c\<lparr>clk_duty_cycle := pct\<rparr>"
  by (simp add: spec_clock_def)

lemma spec_clock_step_pulse: "clock_step_pulse spec_clock c = c\<lparr>clk_pulse := True\<rparr>"
  by (simp add: spec_clock_def)

lemma spec_clock_mode:
  "clock_get_mode spec_clock c = clk_mode c"
  "CLOCK_MONOSTABLE spec_clock = 1"
  by (simp_all add: spec_clock_def)

lemma spec_clock_kind:
  "clock_get_timer_type spec_clock c = timer_type c"
  "CLOCK_TIMER_RPT spec_clock = 0" "CLOCK_TIMER_PWM spec_clock = 1"
  by (simp_all add: spec_clock_def)

lemma word_of_accepted_int:
  assumes "in_int_range n" and "0 < n" and "n \<le> 125000000"
  shows "(word_of_int n :: 32 word) \<noteq> 0" and "(word_of_int n :: 32 word) \<le> 125000000"
proof -
  have u: "uint (word_of_int n :: 32 word) = n"
    using assms by (intro uint_of_nonneg_int) simp_all
  show "(word_of_int n :: 32 word) \<noteq> 0"
    using u assms(2) by auto
  show "(word_of_int n :: 32 word) \<le> 125000000"
    using u assms(3) by (simp add: word_le_def)
qed

text \<open>
  C2: for the number \<open>n\<close> that \<open>atoi\<close> reads behind \<open>freq\<close>: above 125000000 the
  command prints the message and returns the clock's state as it was, for every
  clock; from 1 to 125000000 it passes \<open>n\<close> to \<open>clock_set_freq_hz\<close> and prints the
  status of the new state, and on the clock modelled from the specification reading
  the frequency back gives \<open>n\<close>, no other field having changed.
\<close>

theorem freq_command_cap:
  assumes pre: "strncmp_eq cmd ''freq'' 4" and n: "atoi (c_str (drop 5 cmd)) = Inr n"
  shows "(125000000 < n \<longrightarrow>
            cmd_execute api cmd s =
              Inr (s, cmd_stop
                      @ [Printf ''Frequency cannot be greater than 125000000\<newline>'' []]
                      @ cmd_run))
       \<and> (0 < n \<and> n \<le> 125000000 \<longrightarrow>
            cmd_execute api cmd s =
              Inr (clock_set_freq_hz api (word_of_int n) s,
                   cmd_stop @ cmd_info api (clock_set_freq_hz api (word_of_int n) s) @ cmd_run)
            \<and> uint (clock_get_freq_hz spec_clock
                      (clock_set_freq_hz spec_clock (word_of_int n) c)) = n
            \<and> clock_set_freq_hz spec_clock (word_of_int n) c
                = c\<lparr>clk_freq_hz := word_of_int n\<rparr>)"
proof (intro conjI impI)
  note eq = freq_command [OF pre n, of api s]
  show "cmd_execute api cmd s =
          Inr (s, cmd_stop @ [Printf ''Frequency cannot be greater than 125000000\<newline>'' []]
                  @ cmd_run)"
    if "125000000 < n"
    using that by (simp add: eq)
  assume ok: "0 < n \<and> n \<le> 125000000"
  show "cmd_execute api cmd s =
          Inr (clock_set_freq_hz api (word_of_int n) s,
               cmd_stop @ cmd_info api (clock_set_freq_hz api (word_of_int n) s) @ cmd_run)"
    using ok by (simp add: eq)
  have range: "in_int_range n" "0 < n" "n \<le> 125000000"
    using ok atoi_in_int_range [OF n] by simp_all
  note hz = word_of_accepted_int [OF range]
  show "uint (clock_get_freq_hz spec_clock (clock_set_freq_hz spec_clock (word_of_int n) c)) = n"
    using ok uint_of_nonneg_int [OF range(1)]
    by (simp add: spec_clock_read_back [OF hz])
  show "clock_set_freq_hz spec_clock (word_of_int n) c = c\<lparr>clk_freq_hz := word_of_int n\<rparr>"
    by (rule spec_clock_set_freq [OF hz])
qed

theorem freq_command_cap_witness:
  "strncmp_eq ''freq 200000000'' ''freq'' 4
   \<and> atoi (c_str (drop 5 ''freq 200000000'')) = Inr 200000000
   \<and> (125000000 :: int) < 200000000
   \<and> cmd_execute spec_clock ''freq 200000000'' (initial_clock 0)
       = Inr (initial_clock 0,
              cmd_stop @ [Printf ''Frequency cannot be greater than 125000000\<newline>'' []]
              @ cmd_run)
   \<and> strncmp_eq ''freq 1000'' ''freq'' 4
   \<and> atoi (c_str (drop 5 ''freq 1000'')) = Inr 1000
   \<and> (0 :: int) < 1000 \<and> (1000 :: int) \<le> 125000000
   \<and> cmd_execute spec_clock ''freq 1000'' (initial_clock 0)
       = Inr (clock_set_freq_hz spec_clock (word_of_int 1000) (initial_clock 0),
              cmd_stop
              @ cmd_info spec_clock
                  (clock_set_freq_hz spec_clock (word_of_int 1000) (initial_clock 0))
              @ cmd_run)
   \<and> uint (clock_get_freq_hz spec_clock
             (clock_set_freq_hz spec_clock (word_of_int 1000) (initial_clock 0))) = 1000"
proof -
  have pre1: "strncmp_eq ''freq 200000000'' ''freq'' 4"
    by (simp add: strncmp_eq_def c_str_def NUL_def)
  have n1: "atoi (c_str (drop 5 ''freq 200000000'')) = Inr 200000000"
    by (simp add: c_str_def NUL_def atoi_examples)
  have big: "(125000000 :: int) < 200000000" by simp
  have pre2: "strncmp_eq ''freq 1000'' ''freq'' 4"
    by (simp add: strncmp_eq_def c_str_def NUL_def)
  have n2: "atoi (c_str (drop 5 ''freq 1000'')) = Inr 1000"
    by (simp add: c_str_def NUL_def atoi_examples)
  have pos: "(0 :: int) < 1000" and small: "(1000 :: int) \<le> 125000000" by simp_all
  note over = freq_command_cap [OF pre1 n1, of spec_clock "initial_clock 0",
      THEN conjunct1, THEN mp, OF big]
  note within = freq_command_cap [OF pre2 n2, of spec_clock "initial_clock 0" "initial_clock 0",
      THEN conjunct2, THEN mp, OF conjI [OF pos small]]
  show ?thesis
    by (intro conjI pre1 n1 big over pre2 n2 pos small within [THEN conjunct1]
        within [THEN conjunct2, THEN conjunct1])
qed

text \<open>
  C9: a line that matches none of the command tokens makes the interpreter call
  \<open>clock_step_pulse\<close> (after printing three dots) when the clock's mode is
  Monostable; in any other mode it prints "Unknown command" and returns the clock's
  state as it was.
\<close>

theorem fallback_command:
  assumes "matches_no_command cmd"
  shows "(clock_get_mode api s = CLOCK_MONOSTABLE api \<longrightarrow>
            cmd_execute api cmd s =
              Inr (clock_step_pulse api s, cmd_stop @ [Printf ''...\<newline>'' []] @ cmd_run))
       \<and> (clock_get_mode api s \<noteq> CLOCK_MONOSTABLE api \<longrightarrow>
            cmd_execute api cmd s =
              Inr (s, cmd_stop @ [Printf ''Unknown command\<newline>'' []] @ cmd_run))"
  using assms by (simp add: matches_no_command_def cmd_execute_def)

theorem fallback_command_witness:
  "matches_no_command ''foobar''
   \<and> clock_get_mode spec_clock
        ((initial_clock 0)\<lparr>clk_mode := 1, clk_pulse := False\<rparr>)
       = CLOCK_MONOSTABLE spec_clock
   \<and> cmd_execute spec_clock ''foobar''
        ((initial_clock 0)\<lparr>clk_mode := 1, clk_pulse := False\<rparr>)
       = Inr (clock_step_pulse spec_clock
                ((initial_clock 0)\<lparr>clk_mode := 1, clk_pulse := False\<rparr>),
              cmd_stop @ [Printf ''...\<newline>'' []] @ cmd_run)
   \<and> clock_get_mode spec_clock (initial_clock 0) \<noteq> CLOCK_MONOSTABLE spec_clock
   \<and> cmd_execute spec_clock ''foobar'' (initial_clock 0)
       = Inr (initial_clock 0, cmd_stop @ [Printf ''Unknown command\<newline>'' []] @ cmd_run)"
proof -
  have no: "matches_no_command ''foobar''"
    by (simp add: matches_no_command_def strcmp_eq_def strncmp_eq_def c_str_def NUL_def)
  have mono: "clock_get_mode spec_clock
        ((initial_clock 0)\<lparr>clk_mode := 1, clk_pulse := False\<rparr>)
       = CLOCK_MONOSTABLE spec_clock"
    by (simp add: spec_clock_mode)
  have asta: "clock_get_mode spec_clock (initial_clock 0) \<noteq> CLOCK_MONOSTABLE spec_clock"
    by (simp add: spec_clock_mode initial_clock_def)
  note stepped = fallback_command [OF no, of spec_clock, THEN conjunct1, THEN mp, OF mono]
  note unknown = fallback_command [OF no, of spec_clock, THEN conjunct2, THEN mp, OF asta]
  show ?thesis
    by (intro conjI no mono asta stepped unknown)
qed

subsection \<open>Where the frequency comes from\<close>

text \<open>
  The paths of main.c that write \<open>frequency\<close> keep it at 1 or above: the initial value
  is 1, the build-time constant is taken only when it is positive, and the converter
  readings are scaled to 1 and above (to at most 1000 for 12-bit readings). The
  interrupt handler and the pulse loop never write it.
\<close>

lemma initial_frequency: "sint (frequency initial_generator) = 1"
  by (simp add: initial_generator_def)


lemma sum_uint_bounds:
  "0 \<le> sum_list (map uint (samples :: 16 word list))"
  "\<forall>x \<in> set samples. x \<le> 4095 \<Longrightarrow> sum_list (map uint samples) \<le> 4095 * int (length samples)"
proof -
  show "0 \<le> sum_list (map uint samples)"
    by (induction samples) simp_all
  show "\<forall>x \<in> set samples. x \<le> 4095 \<Longrightarrow> sum_list (map uint samples) \<le> 4095 * int (length samples)"
  proof (induction samples)
    case Nil
    then show ?case by simp
  next
    case (Cons x xs)
    have "uint x \<le> 4095" using Cons.prems by (simp add: word_le_def)
    moreover have "sum_list (map uint xs) \<le> 4095 * int (length xs)"
      using Cons.prems by (intro Cons.IH) simp
    ultimately show ?case by simp
  qed
qed


lemma adc_frequency_at_most_1000:
  assumes "length samples = 64" and "\<forall>x \<in> set samples. x \<le> 4095"
  shows "adc_frequency samples \<le> 1000"
proof -
  have nonneg: "0 \<le> sum_list (map uint samples)" by (rule sum_uint_bounds(1))
  have "sum_list (map uint samples) \<le> 4095 * 64"
    using sum_uint_bounds(2) [OF assms(2)] assms(1) by simp
  then have "sum_list (map uint samples) div 64 \<le> 4095 * 64 div 64"
    by (intro zdiv_mono1) simp_all
  then have avg: "sum_list (map uint samples) div 64 \<le> 4095" by simp
  have avg0: "0 \<le> sum_list (map uint samples) div 64"
    using nonneg by (simp add: pos_imp_zdiv_nonneg_iff)
  have "sum_list (map uint samples) div 64 * 999 div 4095 \<le> 4095 * 999 div 4095"
    using avg by (intro zdiv_mono1) simp_all
  then have "sum_list (map uint samples) div 64 * 999 div 4095 \<le> 999" by simp
  then show ?thesis
    using nonneg avg0 by (simp add: adc_frequency_def Let_def sdiv_nonneg_pos)
qed

lemma loop_keeps_frequency:
  "loop_iteration dbg s = Inr (s1, out) \<Longrightarrow> frequency s1 = frequency s"
  by (auto simp add: loop_iteration_def split: if_splits sum.splits prod.splits)






lemma pass_at_zero_faults:
  "frequency s = 0 \<Longrightarrow> pulse s \<noteq> 0 \<Longrightarrow> loop_iteration dbg s = Inl DivisionByZero"
  by (simp add: loop_iteration_def pulse_times_def c_div_def)








text \<open>
  C4 does not hold of the code: the number read behind \<open>duty\<close> is cut to 16 bits
  before it is compared with 100. With the timer kind PWM the line \<open>duty 65566\<close>,
  typed at the console, prints no message and sets the duty cycle, which was 50,
  to 30.
\<close>

theorem duty_65566_sets_30:
  "console_ticks [0x64, 0x75, 0x74, 0x79, 0x20, 0x36, 0x35, 0x35, 0x36, 0x36, 0x0D]
       initial_console
     = (initial_console, [Execute (''duty 65566'' @ replicate 246 NUL)])
   \<and> atoi (c_str (drop 5 (''duty 65566'' @ replicate 246 NUL))) = Inr 65566
   \<and> clock_get_timer_type spec_clock (initial_clock 1) = CLOCK_TIMER_PWM spec_clock
   \<and> clock_get_duty_cycle spec_clock (initial_clock 1) = 50
   \<and> cmd_execute spec_clock (''duty 65566'' @ replicate 246 NUL) (initial_clock 1)
       = Inr (clock_set_duty_cycle spec_clock 30 (initial_clock 1),
              cmd_stop
              @ cmd_info spec_clock (clock_set_duty_cycle spec_clock 30 (initial_clock 1))
              @ cmd_run)
   \<and> clock_get_duty_cycle spec_clock (clock_set_duty_cycle spec_clock 30 (initial_clock 1)) = 30
   \<and> cmd_execute spec_clock (''duty 65566'' @ replicate 246 NUL) (initial_clock 1)
       \<noteq> Inr (initial_clock 1,
               cmd_stop @ [Printf ''Duty cycle cannot be greater than 100\<newline>'' []]
               @ cmd_run)"
proof -
  have typed:
    "console_ticks [0x64, 0x75, 0x74, 0x79, 0x20, 0x36, 0x35, 0x35, 0x36, 0x36, 0x0D]
         initial_console
       = (initial_console, [Execute (''duty 65566'' @ replicate 246 NUL)])"
    using type_line [of "[0x64, 0x75, 0x74, 0x79, 0x20, 0x36, 0x35, 0x35, 0x36, 0x36]"]
    by (simp add: is_control_def PICO_ERROR_TIMEOUT_def char_of_def)
  have plain: "NUL \<notin> set ''duty 65566''" by (simp add: NUL_def)
  have line: "cmd_execute spec_clock (''duty 65566'' @ replicate 246 NUL) (initial_clock 1)
                = cmd_execute spec_clock ''duty 65566'' (initial_clock 1)"
    using plain by (rule cmd_execute_padding)
  have pre: "strncmp_eq ''duty 65566'' ''duty'' 4"
    by (simp add: strncmp_eq_def c_str_def NUL_def)
  have n: "atoi (c_str (drop 5 ''duty 65566'')) = Inr 65566"
    by (simp add: c_str_def NUL_def atoi_examples)
  have n_buf: "atoi (c_str (drop 5 (''duty 65566'' @ replicate 246 NUL))) = Inr 65566"
    unfolding c_str_drop_padding [OF plain] by (rule n)
  have kind: "clock_get_timer_type spec_clock (initial_clock 1) = CLOCK_TIMER_PWM spec_clock"
    by (simp add: spec_clock_kind initial_clock_def)
  have before: "clock_get_duty_cycle spec_clock (initial_clock 1) = 50"
    by (simp add: spec_clock_def initial_clock_def)
  have after:
    "clock_get_duty_cycle spec_clock (clock_set_duty_cycle spec_clock 30 (initial_clock 1)) = 30"
    by (simp add: spec_clock_def)
  have low16: "(65566 :: 16 word) = 30" by simp
  have run: "cmd_execute spec_clock (''duty 65566'' @ replicate 246 NUL) (initial_clock 1)
       = Inr (clock_set_duty_cycle spec_clock 30 (initial_clock 1),
              cmd_stop
              @ cmd_info spec_clock (clock_set_duty_cycle spec_clock 30 (initial_clock 1))
              @ cmd_run)"
    unfolding line using kind by (simp add: duty_command [OF pre n] spec_clock_kind low16)
  have changed: "clock_set_duty_cycle spec_clock 30 (initial_clock 1) \<noteq> initial_clock 1"
    using before after by auto
  show ?thesis
    unfolding run using changed by (intro conjI typed n_buf kind before after refl) simp
qed

end
